theory Spec2Isabelle
  imports Main "HOL-Library.AList"
begin

section \<open>Strings, paths and the two regular expressions\<close>

text \<open>
  The program is a Node script. Its strings are modelled as \<open>string\<close> (lists of 8-bit
  characters), so the model covers text in Latin-1; an index into a string counts
  characters, as \<open>lastIndex\<close> of a JavaScript regular expression does.
\<close>

definition LF :: char where "LF = CHR 0x0A"
definition CR :: char where "CR = CHR 0x0D"
definition QUOTE :: char where "QUOTE = CHR 0x22"
definition SLASH :: char where "SLASH = CHR ''/''"

text \<open>\<open>s.split(c)\<close> for a one-character separator: never empty, \<open>''''.split(c) = ['''']\<close>.\<close>

fun split_on :: "char \<Rightarrow> string \<Rightarrow> string list" where
  "split_on c [] = [[]]"
| "split_on c (x # xs) =
     (if x = c then [] # split_on c xs
      else (case split_on c xs of [] \<Rightarrow> [[x]] | s # ss \<Rightarrow> (x # s) # ss))"

text \<open>\<open>parts.join(sep)\<close>.\<close>

fun join_with :: "string \<Rightarrow> string list \<Rightarrow> string" where
  "join_with s [] = []"
| "join_with s [x] = x"
| "join_with s (x # y # ys) = x @ s @ join_with s (y # ys)"

subsection \<open>\<open>path.normalize\<close> and \<open>path.join\<close> (POSIX)\<close>

text \<open>
  Node's \<open>normalizeString\<close>: empty and \<open>.\<close> segments are dropped, \<open>..\<close> removes the
  segment before it; at the start of a relative path (\<open>allowAboveRoot\<close>) it is kept, at the root
  it is dropped. The accumulator holds the segments kept so far, last first.
\<close>

fun normalizeString :: "bool \<Rightarrow> string list \<Rightarrow> string list \<Rightarrow> string list" where
  "normalizeString allowAboveRoot acc [] = rev acc"
| "normalizeString allowAboveRoot acc (s # ss) =
     (if s = [] \<or> s = ''.'' then normalizeString allowAboveRoot acc ss
      else if s = ''..'' then
        (case acc of
           [] \<Rightarrow> normalizeString allowAboveRoot (if allowAboveRoot then [''..''] else []) ss
         | a # as \<Rightarrow>
             if a = ''..'' then normalizeString allowAboveRoot (if allowAboveRoot then ''..'' # acc else acc) ss
             else normalizeString allowAboveRoot as ss)
      else normalizeString allowAboveRoot (s # acc) ss)"

definition normalize :: "string \<Rightarrow> string" where
  "normalize p =
     (if p = [] then ''.''
      else
        let isAbsolute = (hd p = SLASH);
            trailingSeparator = (last p = SLASH);
            body = join_with ''/'' (normalizeString (\<not> isAbsolute) [] (split_on SLASH p))
        in if body = [] then
             (if isAbsolute then ''/'' else if trailingSeparator then ''./'' else ''.'')
           else (if isAbsolute then ''/'' else []) @ body
                @ (if trailingSeparator then ''/'' else []))"

definition join :: "string list \<Rightarrow> string" where
  "join args =
     (let joined = filter (\<lambda>a. a \<noteq> []) args
      in if joined = [] then ''.'' else normalize (join_with ''/'' joined))"

subsection \<open>\<open>steamIconRegex = /([0-9]*)x([0-9]*)x([0-9]*)/\<close>\<close>

definition is_digit :: "char \<Rightarrow> bool" where
  "is_digit c = (c \<in> set ''0123456789'')"

text \<open>A parsed file name, as \<open>extractIco\<close> builds it: the three captures stay strings.\<close>

record candidate =
  path :: string
  width :: string
  height :: string
  bitdepth :: string

text \<open>
  The expression tried at the start of \<open>s\<close>. A run of digits is greedy and is followed by
  a character that is no digit, so there is nothing to backtrack into: the longest run
  is the only one that can match.
\<close>

definition icon_match_here :: "string \<Rightarrow> (string \<times> string \<times> string) option" where
  "icon_match_here s =
     (let w = takeWhile is_digit s; r1 = dropWhile is_digit s in
      case r1 of
        [] \<Rightarrow> None
      | c1 # s2 \<Rightarrow>
          if c1 \<noteq> CHR ''x'' then None
          else
            let h = takeWhile is_digit s2; r2 = dropWhile is_digit s2 in
            (case r2 of
               [] \<Rightarrow> None
             | c2 # s3 \<Rightarrow>
                 if c2 \<noteq> CHR ''x'' then None
                 else Some (w, h, takeWhile is_digit s3)))"

text \<open>\<open>steamIconRegex.exec(v)\<close>: no \<open>g\<close> flag, so the search starts at index 0 each time
  and returns the leftmost match.\<close>

fun steamIconRegex_exec :: "string \<Rightarrow> (string \<times> string \<times> string) option" where
  "steamIconRegex_exec [] = icon_match_here []"
| "steamIconRegex_exec (c # cs) =
     (case icon_match_here (c # cs) of
        Some m \<Rightarrow> Some m
      | None \<Rightarrow> steamIconRegex_exec cs)"

subsection \<open>\<open>steamcmdRegex = /^\s*"clienticon"\s+"([^"]+)"\s*$/gm\<close>\<close>

text \<open>\<open>\s\<close> and the line terminators, among 8-bit characters.\<close>

definition is_space :: "char \<Rightarrow> bool" where
  "is_space c = (c \<in> {CHR 0x09, CHR 0x0A, CHR 0x0B, CHR 0x0C, CHR 0x0D, CHR 0x20, CHR 0xA0})"

definition is_line_terminator :: "char \<Rightarrow> bool" where
  "is_line_terminator c = (c = LF \<or> c = CR)"

text \<open>
  \<open>\s*$\<close> at the start of \<open>s\<close>, in multiline mode: the longest run of white space that
  ends at the end of the input or before a line terminator. The result is the number of
  characters taken, \<open>None\<close> when no run does.
\<close>

fun trailing_space :: "string \<Rightarrow> nat option" where
  "trailing_space [] = Some 0"
| "trailing_space (c # cs) =
     (if is_space c then
        (case trailing_space cs of
           Some n \<Rightarrow> Some (Suc n)
         | None \<Rightarrow> if is_line_terminator c then Some 0 else None)
      else None)"

text \<open>
  The body \<open>\s*"clienticon"\s+"([^"]+)"\s*$\<close> at the start of \<open>s\<close>: the capture and the
  length of the match. Every greedy run is followed by a character outside the run's
  class, so only \<open>\s*$\<close> backtracks.
\<close>

definition steamcmd_match_here :: "string \<Rightarrow> (string \<times> nat) option" where
  "steamcmd_match_here s =
     (let sp1 = takeWhile is_space s; r1 = dropWhile is_space s;
          key = QUOTE # ''clienticon'' @ [QUOTE]
      in if take (length key) r1 \<noteq> key then None
         else
           let r2 = drop (length key) r1;
               sp2 = takeWhile is_space r2; r3 = dropWhile is_space r2
           in if sp2 = [] then None
              else (case r3 of
                 [] \<Rightarrow> None
               | q # r4 \<Rightarrow>
                   if q \<noteq> QUOTE then None
                   else
                     let hash = takeWhile (\<lambda>c. c \<noteq> QUOTE) r4;
                         r5 = dropWhile (\<lambda>c. c \<noteq> QUOTE) r4
                     in if hash = [] then None
                        else (case r5 of
                           [] \<Rightarrow> None
                         | q2 # r6 \<Rightarrow>
                             (case trailing_space r6 of
                                None \<Rightarrow> None
                              | Some n \<Rightarrow>
                                  Some (hash, length sp1 + length key + length sp2
                                              + 1 + length hash + 1 + n)))))"

text \<open>
  The search from index \<open>i\<close> on: \<open>at_start\<close> says whether \<open>^\<close> holds at \<open>i\<close> (index 0, or
  after a line terminator). The result is the capture and the index after the match.
\<close>

fun steamcmd_scan :: "bool \<Rightarrow> nat \<Rightarrow> string \<Rightarrow> (string \<times> nat) option" where
  "steamcmd_scan at_start i [] = None"
| "steamcmd_scan at_start i (c # cs) =
     (case (if at_start then steamcmd_match_here (c # cs) else None) of
        Some (h, n) \<Rightarrow> Some (h, i + n)
      | None \<Rightarrow> steamcmd_scan (is_line_terminator c) (Suc i) cs)"

text \<open>
  \<open>steamcmdRegex.exec(s)\<close> with the expression's \<open>lastIndex\<close> at \<open>li\<close>. The expression
  has the \<open>g\<close> flag and is one object shared by every call (line 24), so the search starts
  at \<open>lastIndex\<close>; a match moves \<open>lastIndex\<close> behind it, a failure sets it to 0. The
  result is the capture, if any, and the new \<open>lastIndex\<close>.
\<close>

definition steamcmdRegex_exec :: "nat \<Rightarrow> string \<Rightarrow> string option \<times> nat" where
  "steamcmdRegex_exec li s =
     (if li > length s then (None, 0)
      else
        (case steamcmd_scan (li = 0 \<or> is_line_terminator (s ! (li - 1))) li (drop li s) of
           Some (h, e) \<Rightarrow> (Some h, e)
         | None \<Rightarrow> (None, 0)))"

text \<open>\<open>Number(s)\<close> for a string of decimal digits; \<open>Number('''') = 0\<close>. The captures of
  \<open>steamIconRegex\<close> are such strings. Values are exact: the rounding of a double beyond
  \<open>2^53\<close> is not modelled.\<close>

definition digit_val :: "char \<Rightarrow> nat" where
  "digit_val c = of_char c - 48"

definition Number :: "string \<Rightarrow> nat" where
  "Number s = foldl (\<lambda>n c. 10 * n + digit_val c) 0 s"

text \<open>\<open>Math.max(...xs)\<close>: \<open>None\<close> stands for \<open>-Infinity\<close>, the maximum of no numbers.\<close>

definition Math_max :: "nat list \<Rightarrow> nat option" where
  "Math_max xs = (if xs = [] then None else Some (foldl max (hd xs) (tl xs)))"

section \<open>The world: file system, regular-expression state, observable events\<close>

datatype node = Dir bool | File string

text \<open>
  \<open>Dir b\<close>: a directory, \<open>b\<close> says whether entries may be created in it. The file system
  is an association list from the absolute or relative path of a node (no trailing
  \<open>/\<close>) to the node; symbolic links are not modelled.
\<close>

datatype error =
    EEXIST string | ENOENT string | ENOTDIR string | EISDIR string | EACCES string
  | ExecError string
  | TypeError
  | FetchFailed

datatype event =
    ConsoleLog string
  | ConsoleError string
  | ConsoleErrorObj error
  | Spawned string "string list"
  | Executed string
  | Fetched string
  | MadeDir string
  | Streamed string string
  | Wrote string string
  | Copied string string

text \<open>
  The events are what the program does to the outside, in order: \<open>Streamed\<close> is a write
  through \<open>createWriteStream\<close>, \<open>Wrote\<close> a \<open>writeFile\<close>, \<open>Copied\<close> a \<open>copyFile\<close>, each
  recorded when it has succeeded.
\<close>

record world =
  fs :: "(string \<times> node) list"
  lastIndex :: nat
  trace :: "event list"

text \<open>
  What a promise does in the end: it is fulfilled with a value, rejected with an error
  (an \<open>await\<close> of it throws), or never settled.
\<close>

datatype 'a outcome = Resolved 'a | Rejected error | Pending

definition emit :: "event \<Rightarrow> world \<Rightarrow> world" where
  "emit ev w = w\<lparr>trace := trace w @ [ev]\<rparr>"

definition canon :: "string \<Rightarrow> string" where
  "canon p = (if p \<noteq> ''/'' \<and> p \<noteq> [] \<and> last p = SLASH then butlast p else p)"

definition dirname :: "string \<Rightarrow> string" where
  "dirname k =
     (let d = rev (dropWhile (\<lambda>c. c \<noteq> SLASH) (rev k))
      in if d = [] then ''.'' else if d = ''/'' then ''/'' else butlast d)"

definition basename :: "string \<Rightarrow> string" where
  "basename k = rev (takeWhile (\<lambda>c. c \<noteq> SLASH) (rev k))"

text \<open>The node a path names; a path with a trailing \<open>/\<close> names directories only.\<close>

definition lookup :: "world \<Rightarrow> string \<Rightarrow> node option" where
  "lookup w p =
     (case map_of (fs w) (canon p) of
        Some (File c) \<Rightarrow> if canon p \<noteq> p then None else Some (File c)
      | r \<Rightarrow> r)"

definition existsSync :: "string \<Rightarrow> world \<Rightarrow> bool" where
  "existsSync p w = (lookup w p \<noteq> None)"

text \<open>Creating the entry \<open>p\<close> in its parent directory: the error, if the parent forbids it.\<close>

definition parent_error :: "world \<Rightarrow> string \<Rightarrow> error option" where
  "parent_error w p =
     (case map_of (fs w) (dirname (canon p)) of
        None \<Rightarrow> Some (ENOENT p)
      | Some (File c) \<Rightarrow> Some (ENOTDIR p)
      | Some (Dir b) \<Rightarrow> if b then None else Some (EACCES p))"

definition mkdir :: "string \<Rightarrow> world \<Rightarrow> error + world" where
  "mkdir p w =
     (if map_of (fs w) (canon p) \<noteq> None then Inl (EEXIST p)
      else (case parent_error w p of
              Some er \<Rightarrow> Inl er
            | None \<Rightarrow>
                Inr (emit (MadeDir p) (w\<lparr>fs := AList.update (canon p) (Dir True) (fs w)\<rparr>))))"

definition stat :: "string \<Rightarrow> world \<Rightarrow> error + node" where
  "stat p w = (case lookup w p of None \<Rightarrow> Inl (ENOENT p) | Some n \<Rightarrow> Inr n)"

definition readFile :: "string \<Rightarrow> world \<Rightarrow> error + string" where
  "readFile p w =
     (case lookup w p of
        None \<Rightarrow> Inl (ENOENT p)
      | Some (Dir b) \<Rightarrow> Inl (EISDIR p)
      | Some (File c) \<Rightarrow> Inr c)"

definition readdir :: "string \<Rightarrow> world \<Rightarrow> error + string list" where
  "readdir p w =
     (case map_of (fs w) (canon p) of
        None \<Rightarrow> Inl (ENOENT p)
      | Some (File c) \<Rightarrow> Inl (ENOTDIR p)
      | Some (Dir b) \<Rightarrow>
          Inr (map basename
                 (filter (\<lambda>k. dirname k = canon p \<and> k \<noteq> canon p) (map fst (fs w)))))"

text \<open>
  Storing contents at \<open>p\<close>, as \<open>writeFile\<close> and \<open>copyFile\<close> do: a file that exists is
  overwritten, a new one needs a directory that takes entries.
\<close>

definition store :: "string \<Rightarrow> string \<Rightarrow> world \<Rightarrow> error + world" where
  "store p c w =
     (case lookup w p of
        Some (Dir b) \<Rightarrow> Inl (EISDIR p)
      | Some (File old) \<Rightarrow> Inr (w\<lparr>fs := AList.update (canon p) (File c) (fs w)\<rparr>)
      | None \<Rightarrow>
          (if canon p \<noteq> p then Inl (EISDIR p)
           else (case parent_error w p of
                   Some er \<Rightarrow> Inl er
                 | None \<Rightarrow> Inr (w\<lparr>fs := AList.update p (File c) (fs w)\<rparr>))))"

definition writeFile :: "string \<Rightarrow> string \<Rightarrow> world \<Rightarrow> error + world" where
  "writeFile p c w =
     (case store p c w of Inl er \<Rightarrow> Inl er | Inr w' \<Rightarrow> Inr (emit (Wrote p c) w'))"

text \<open>\<open>createWriteStream(p, {flags: 'wx'})\<close> and the write of the whole body: the open
  fails when \<open>p\<close> exists.\<close>

definition writeStream_wx :: "string \<Rightarrow> string \<Rightarrow> world \<Rightarrow> error + world" where
  "writeStream_wx p c w =
     (if map_of (fs w) (canon p) \<noteq> None then Inl (EEXIST p)
      else (case store p c w of Inl er \<Rightarrow> Inl er | Inr w' \<Rightarrow> Inr (emit (Streamed p c) w')))"

definition copyFile :: "string \<Rightarrow> string \<Rightarrow> world \<Rightarrow> error + world" where
  "copyFile src dst w =
     (case readFile src w of
        Inl er \<Rightarrow> Inl er
      | Inr c \<Rightarrow>
          (case store dst c w of
             Inl er \<Rightarrow> Inl er
           | Inr w' \<Rightarrow> Inr (emit (Copied src dst) w')))"

section \<open>The environment: external processes and the network\<close>

datatype response = Ok string | NotOk string | NetworkError | NoResponse

text \<open>
  \<^item> \<open>steamcmd app_id\<close>: the chunks the process writes to its standard output, in the
    order of the \<open>data\<close> events, and the code of its \<open>close\<close> event (\<open>None\<close>: the code is
    \<open>null\<close>, the process was ended by a signal). The model covers runs in which the
    process is started; a \<open>steamcmd\<close> that cannot be started is outside it.
  \<^item> \<open>fetch url\<close>: the response, a network error (the promise is rejected), or none ever.
  \<^item> \<open>icotool src dest\<close>: the text of standard error when the command fails (a nonzero
    exit, or no such command), else the files it has created in \<open>dest\<close>, as names and
    contents.
  \<^item> \<open>mkdtemp_suffix\<close>: the six characters \<open>mkdtemp\<close> appends; \<open>os_tmpdir\<close>: \<open>os.tmpdir()\<close>.
\<close>

record env =
  steamcmd :: "string \<Rightarrow> string list \<times> nat option"
  fetch :: "string \<Rightarrow> response"
  icotool :: "string \<Rightarrow> string \<Rightarrow> string + (string \<times> string) list"
  os_tmpdir :: string
  mkdtemp_suffix :: string

text \<open>The constants of lines 19 to 23, computed once when the module is loaded.\<close>

record config =
  steamCommonPath :: string
  applicationPath :: string
  iconPath :: string
  tmpDir :: string

definition steamIconBase :: string where
  "steamIconBase = ''https://shared.fastly.steamstatic.com/community_assets/images/apps/''"

section \<open>The program\<close>

text \<open>
  An asynchronous function is modelled as a function from the world in which it is called
  to the outcome of its promise and the world it leaves. A call runs to its end with
  nothing in between: what other calls do while it waits at an \<open>await\<close> is not modelled.
\<close>

subsection \<open>\<open>getIconHash\<close> (lines 81 to 110)\<close>

text \<open>
  The \<open>data\<close> events in order. Each runs \<open>steamcmdRegex.exec\<close> on its chunk and calls
  \<open>resolve\<close> on a match; only the first \<open>resolve\<close> of a promise counts, but every
  \<open>exec\<close> moves \<open>lastIndex\<close>. The result is the value the promise was resolved with, if
  any, and the last \<open>lastIndex\<close>.
\<close>

fun on_data :: "string list \<Rightarrow> nat \<Rightarrow> string option \<Rightarrow> string option \<times> nat" where
  "on_data [] li resolved = (resolved, li)"
| "on_data (output # rest) li resolved =
     (case steamcmdRegex_exec li output of
        (Some searched, li') \<Rightarrow>
          on_data rest li' (if resolved = None then Some searched else resolved)
      | (None, li') \<Rightarrow> on_data rest li' resolved)"

text \<open>
  The \<open>close\<close> event comes after the last \<open>data\<close> event and rejects the promise when its
  code is truthy (a number other than 0); a promise that is already resolved stays so.
  With no match and a code of 0 or \<open>null\<close> nothing settles the promise.
\<close>

definition getIconHash :: "env \<Rightarrow> string \<Rightarrow> world \<Rightarrow> string option outcome \<times> world" where
  "getIconHash e app_id w =
     (let (chunks, code) = steamcmd e app_id;
          w1 = emit (Spawned ''steamcmd''
                 [''+login'', ''anonymous'', ''+app_info_print'', app_id, ''+quit'']) w;
          (resolved, li) = on_data chunks (lastIndex w1) None;
          w2 = w1\<lparr>lastIndex := li\<rparr>
      in case resolved of
           Some hash \<Rightarrow> (Resolved (Some hash), emit (ConsoleLog hash) w2)
         | None \<Rightarrow>
             (case code of
                Some (Suc n) \<Rightarrow>
                  (Resolved None,
                   emit (ConsoleError ''Could not use SteamCMD to get icon hash!'') w2)
              | _ \<Rightarrow> (Pending, w2)))"

subsection \<open>\<open>downloadIcon\<close> (lines 60 to 79)\<close>

definition downloadIcon :: "env \<Rightarrow> config \<Rightarrow> string \<Rightarrow> world \<Rightarrow> string option outcome \<times> world" where
  "downloadIcon e cfg app_id w =
     (case getIconHash e app_id w of
        (Pending, w1) \<Rightarrow> (Pending, w1)
      | (Rejected er, w1) \<Rightarrow> (Rejected er, w1)
      | (Resolved None, w1) \<Rightarrow> (Resolved None, w1)
      | (Resolved (Some iconHash), w1) \<Rightarrow>
          if iconHash = [] then (Resolved None, w1)
          else
            let url = steamIconBase @ app_id @ ''/'' @ iconHash @ ''.ico'';
                w2 = emit (Fetched url) (emit (ConsoleLog url) w1)
            in (case fetch e url of
                  NoResponse \<Rightarrow> (Pending, w2)
                | NetworkError \<Rightarrow> (Rejected FetchFailed, w2)
                | Ok body \<Rightarrow>
                    (let dest = join [tmpDir cfg, iconHash] in
                     case writeStream_wx dest body w2 of
                       Inl er \<Rightarrow> (Rejected er, w2)
                     | Inr w3 \<Rightarrow> (Resolved (Some dest), w3))
                | NotOk body \<Rightarrow>
                    (Resolved None, emit (ConsoleError (''Could not fetch icon! '' @ body)) w2)))"

subsection \<open>\<open>extractIco\<close> (lines 28 to 58)\<close>

text \<open>A value in a template literal: \<open>null\<close> prints as \<open>null\<close>.\<close>

definition template :: "string option \<Rightarrow> string" where
  "template v = (case v of None \<Rightarrow> ''null'' | Some s \<Rightarrow> s)"

text \<open>The files \<open>icotool\<close> has created in \<open>dest\<close>.\<close>

fun created :: "string \<Rightarrow> (string \<times> string) list \<Rightarrow> (string \<times> node) list \<Rightarrow> (string \<times> node) list" where
  "created dest [] al = al"
| "created dest ((name, c) # rest) al =
     created dest rest (AList.update (canon (join [dest, name])) (File c) al)"

text \<open>The callback of \<open>files.map\<close> (lines 46 to 57): \<open>None\<close> is \<open>null\<close>.\<close>

definition parse_name :: "string \<Rightarrow> string \<Rightarrow> candidate option" where
  "parse_name dest v =
     (case steamIconRegex_exec v of
        None \<Rightarrow> None
      | Some (m1, m2, m3) \<Rightarrow>
          Some \<lparr>path = join [dest, v], width = m1, height = m2, bitdepth = m3\<rparr>)"

text \<open>
  The promise of lines 30 to 40 is rejected when \<open>exec\<close> reports an error and resolved
  with \<open>null\<close> otherwise, so \<open>err\<close> is \<open>null\<close> whenever line 42 is reached.
\<close>

definition extractIco ::
  "env \<Rightarrow> string option \<Rightarrow> string \<Rightarrow> world \<Rightarrow> candidate option list outcome \<times> world" where
  "extractIco e src dest w =
     (case mkdir dest w of
        Inl er \<Rightarrow> (Rejected er, w)
      | Inr w1 \<Rightarrow>
          (let w2 = emit (Executed (''icotool -x '' @ template src @ '' -o '' @ dest)) w1 in
           case icotool e (template src) dest of
             Inl stderror \<Rightarrow>
               (Rejected (ExecError stderror),
                emit (ConsoleError (''Could not extract icon sizes! '' @ stderror)) w2)
           | Inr made \<Rightarrow>
               (let w3 = w2\<lparr>fs := created dest made (fs w2)\<rparr>;
                    err = (None :: error option)
                in if err \<noteq> None then (Resolved [], w3)
                   else (case readdir dest w3 of
                           Inl er \<Rightarrow> (Rejected er, w3)
                         | Inr files \<Rightarrow> (Resolved (map (parse_name dest) files), w3)))))"

subsection \<open>\<open>installIcon\<close> (lines 112 to 143)\<close>

text \<open>
  The loop of lines 117 to 141 over the candidates that are left, with the flag
  \<open>succeeded\<close>. \<open>v.height != v.width\<close> compares two strings; \<open>v.bitdepth != highestDepth\<close>
  compares a string with a number, so the string is converted.
\<close>

fun install_loop ::
  "config \<Rightarrow> string \<Rightarrow> nat option \<Rightarrow> candidate list \<Rightarrow> bool \<Rightarrow> world \<Rightarrow> bool \<times> world" where
  "install_loop cfg app_id highestDepth [] succeeded w = (succeeded, w)"
| "install_loop cfg app_id highestDepth (v # rest) succeeded w =
     (if height v \<noteq> width v then
        install_loop cfg app_id highestDepth rest succeeded
          (emit (ConsoleError (''Icon '' @ [CHR 0x27] @ path v @ [CHR 0x27] @ '' is not square!'')) w)
      else if Some (Number (bitdepth v)) \<noteq> highestDepth then
        install_loop cfg app_id highestDepth rest succeeded w
      else
        let iconDir = join [iconPath cfg, width v @ ''x'' @ height v @ ''/'', ''apps/''] in
        if \<not> existsSync iconDir w then install_loop cfg app_id highestDepth rest succeeded w
        else
          let destPath = join [iconDir, ''steam_icon_'' @ app_id @ ''.png''] in
          if existsSync destPath w then install_loop cfg app_id highestDepth rest True w
          else (case copyFile (path v) destPath w of
                  Inl er \<Rightarrow> install_loop cfg app_id highestDepth rest succeeded w
                | Inr w' \<Rightarrow> install_loop cfg app_id highestDepth rest True w'))"

text \<open>
  Lines 115 to 142, once \<open>sizes\<close> is there. \<open>sizes.map(v => v.bitdepth)\<close> throws a
  \<open>TypeError\<close> when an element of \<open>sizes\<close> is \<open>null\<close>.
\<close>

definition install_sizes ::
  "config \<Rightarrow> string \<Rightarrow> candidate option list \<Rightarrow> world \<Rightarrow> bool outcome \<times> world" where
  "install_sizes cfg app_id sizes w =
     (case those sizes of
        None \<Rightarrow> (Rejected TypeError, w)
      | Some vs \<Rightarrow>
          (let highestDepth = Math_max (map (\<lambda>v. Number (bitdepth v)) vs);
               (succeeded, w') = install_loop cfg app_id highestDepth vs False w
           in (Resolved succeeded, w')))"

definition installIcon :: "env \<Rightarrow> config \<Rightarrow> string \<Rightarrow> world \<Rightarrow> bool outcome \<times> world" where
  "installIcon e cfg app_id w =
     (case downloadIcon e cfg app_id w of
        (Pending, w1) \<Rightarrow> (Pending, w1)
      | (Rejected er, w1) \<Rightarrow> (Rejected er, w1)
      | (Resolved ico, w1) \<Rightarrow>
          (case extractIco e ico (join [tmpDir cfg, app_id @ ''/'']) w1 of
             (Pending, w2) \<Rightarrow> (Pending, w2)
           | (Rejected er, w2) \<Rightarrow> (Rejected er, w2)
           | (Resolved sizes, w2) \<Rightarrow> install_sizes cfg app_id sizes w2))"

subsection \<open>\<open>createDesktopFile\<close> (lines 145 to 180)\<close>

definition is_directory :: "node \<Rightarrow> bool" where
  "is_directory n = (case n of Dir b \<Rightarrow> True | File c \<Rightarrow> False)"

text \<open>\<open>fd.split('\n')[0]\<close>: the text before the first line feed.\<close>

definition first_line :: "string \<Rightarrow> string" where
  "first_line fd = hd (split_on LF fd)"

definition desktopFileContent :: "string \<Rightarrow> string \<Rightarrow> string \<Rightarrow> string" where
  "desktopFileContent name ident icon =
     ''[Desktop Entry]'' @ [LF] @ ''Name='' @ name @ [LF]
     @ ''Comment=Play this game on Steam'' @ [LF]
     @ ''Exec=steam steam://rungameid/'' @ ident @ [LF]
     @ ''Icon='' @ icon @ [LF] @ ''Terminal=false'' @ [LF] @ ''Type=Application'' @ [LF]
     @ ''Categories=Game;'' @ [LF, LF]"

text \<open>
  Every \<open>catch\<close> of the function logs the error and ends the call, so the promise of
  \<open>createDesktopFile\<close> is never rejected: it is resolved (\<open>True\<close>) or, when an \<open>await\<close> in
  it never returns, left pending (\<open>False\<close>).
\<close>

definition createDesktopFile :: "env \<Rightarrow> config \<Rightarrow> string \<Rightarrow> world \<Rightarrow> bool \<times> world" where
  "createDesktopFile e cfg dir w =
     (let gamePath = join [steamCommonPath cfg, dir] in
      case stat gamePath w of
        Inl er \<Rightarrow> (True, emit (ConsoleErrorObj er) w)
      | Inr stats \<Rightarrow>
          if \<not> is_directory stats then (True, w)
          else
            let appidFilePath = join [gamePath, ''steam_appid.txt''] in
            if \<not> existsSync appidFilePath w then (True, w)
            else (case readFile appidFilePath w of
               Inl er \<Rightarrow> (True, emit (ConsoleErrorObj er) w)
             | Inr fd \<Rightarrow>
                 (let game_name = dir; game_id = first_line fd in
                  case installIcon e cfg game_id w of
                    (Pending, w1) \<Rightarrow> (False, w1)
                  | (Rejected er, w1) \<Rightarrow> (True, emit (ConsoleErrorObj er) w1)
                  | (Resolved installed, w1) \<Rightarrow>
                      (let icon = (if installed then ''steam_icon_'' @ game_id else ''steam'');
                           content = desktopFileContent game_name game_id icon
                       in case writeFile (join [applicationPath cfg, game_name @ ''.desktop''])
                                 content w1 of
                            Inl er \<Rightarrow> (True, emit (ConsoleErrorObj er) w1)
                          | Inr w2 \<Rightarrow>
                              (True,
                               emit (ConsoleLog (''Created .desktop file for '' @ [CHR 0x27]
                                  @ game_name @ [CHR 0x27] @ '' ('' @ game_id @ '').'')) w2)))))"

subsection \<open>\<open>createAllDesktops\<close> (lines 182 to 198) and the module (lines 12 to 23, 200)\<close>

text \<open>
  \<open>files.map(async ...)\<close> starts one call of \<open>createDesktopFile\<close> per entry and waits for
  none. The calls share the file system and \<open>steamcmdRegex\<close>; the model runs them one
  after the other in the order of \<open>files\<close>, each to its end, which is one of the
  schedules the event loop may take. A call that stays pending does not hold up the
  next one.
\<close>

fun create_each :: "env \<Rightarrow> config \<Rightarrow> string list \<Rightarrow> world \<Rightarrow> world" where
  "create_each e cfg [] w = w"
| "create_each e cfg (file_name # rest) w =
     create_each e cfg rest (snd (createDesktopFile e cfg file_name w))"

text \<open>Decimal digits of a number, for \<open>files.length\<close> in a template literal.\<close>

fun digits_of :: "nat \<Rightarrow> nat \<Rightarrow> string" where
  "digits_of 0 n = []"
| "digits_of (Suc fuel) n =
     (if n < 10 then [char_of (48 + n)]
      else digits_of fuel (n div 10) @ [char_of (48 + n mod 10)])"

definition show_nat :: "nat \<Rightarrow> string" where
  "show_nat n = digits_of (Suc n) n"

text \<open>The result is the exit code of the process and the world it leaves.\<close>

definition createAllDesktops :: "env \<Rightarrow> config \<Rightarrow> world \<Rightarrow> nat \<times> world" where
  "createAllDesktops e cfg w =
     (if \<not> existsSync (steamCommonPath cfg) w then (1, emit (ConsoleError ''Invalid path.'') w)
      else (case readdir (steamCommonPath cfg) w of
              Inl er \<Rightarrow> (0, emit (ConsoleErrorObj er) w)
            | Inr files \<Rightarrow>
                (0, create_each e cfg files
                      (emit (ConsoleLog ''Creating .desktop files...'')
                         (emit (ConsoleLog (''Found '' @ show_nat (length files) @ '' games.'')) w)))))"

text \<open>
  The module: \<open>args\<close> are the positional arguments (strings), \<open>home\<close> is
  \<open>process.env['HOME']\<close>. \<open>join\<close> throws a \<open>TypeError\<close> when \<open>HOME\<close> is not set, and an
  error that nothing catches ends the process with code 1, as a rejected \<open>mkdtemp\<close> does.
  \<open>mkdtemp\<close> appends its suffix to the prefix as it is and creates the directory.
\<close>

definition tmp_path :: "env \<Rightarrow> string" where
  "tmp_path e = join [os_tmpdir e, ''sdfg-''] @ mkdtemp_suffix e"

definition program :: "env \<Rightarrow> string list \<Rightarrow> string option \<Rightarrow> world \<Rightarrow> nat \<times> world" where
  "program e args home w =
     (if length args \<le> 0 then (1, emit (ConsoleError ''No path provided'') w)
      else
        let steamLibPath = normalize (hd args);
            common = join [steamLibPath, ''steamapps'', ''common'']
        in (case home of
              None \<Rightarrow> (1, emit (ConsoleErrorObj TypeError) w)
            | Some h \<Rightarrow>
                (case mkdir (tmp_path e) w of
                   Inl er \<Rightarrow> (1, emit (ConsoleErrorObj er) w)
                 | Inr w1 \<Rightarrow>
                     createAllDesktops e
                       \<lparr>steamCommonPath = common,
                        applicationPath = join [h, ''.local'', ''share'', ''applications'', ''steam''],
                        iconPath = join [h, ''.local'', ''share'', ''icons'', ''hicolor''],
                        tmpDir = tmp_path e\<rparr> w1)))"

section \<open>Notions the properties are stated with\<close>

definition is_copy :: "event \<Rightarrow> bool" where
  "is_copy ev = (case ev of Copied src dst \<Rightarrow> True | _ \<Rightarrow> False)"

definition is_write :: "event \<Rightarrow> bool" where
  "is_write ev = (case ev of Wrote p c \<Rightarrow> True | _ \<Rightarrow> False)"

definition is_stream :: "event \<Rightarrow> bool" where
  "is_stream ev = (case ev of Streamed p c \<Rightarrow> True | _ \<Rightarrow> False)"

text \<open>The copies into the icon theme, the shortcut files written and the downloads stored
  so far, oldest first.\<close>

definition copies :: "world \<Rightarrow> event list" where
  "copies w = filter is_copy (trace w)"

definition shortcuts :: "world \<Rightarrow> event list" where
  "shortcuts w = filter is_write (trace w)"

definition downloads :: "world \<Rightarrow> event list" where
  "downloads w = filter is_stream (trace w)"

text \<open>Those made on the way from \<open>w\<close> to \<open>w'\<close>.\<close>

definition new_copies :: "world \<Rightarrow> world \<Rightarrow> event list" where
  "new_copies w w' = drop (length (copies w)) (copies w')"


text \<open>The names of lines 126 and 131 for a candidate.\<close>

definition iconDir_of :: "config \<Rightarrow> candidate \<Rightarrow> string" where
  "iconDir_of cfg v = join [iconPath cfg, width v @ ''x'' @ height v @ ''/'', ''apps/'']"

definition destPath_of :: "config \<Rightarrow> string \<Rightarrow> candidate \<Rightarrow> string" where
  "destPath_of cfg app_id v = join [iconDir_of cfg v, ''steam_icon_'' @ app_id @ ''.png'']"

text \<open>The largest bit depth among candidates, as a number.\<close>

definition max_depth :: "candidate list \<Rightarrow> nat" where
  "max_depth vs = Max (set (map (\<lambda>u. Number (bitdepth u)) vs))"

text \<open>The names of lines 20, 152 and 169.\<close>

definition common_of :: "string list \<Rightarrow> string" where
  "common_of args = join [normalize (hd args), ''steamapps'', ''common'']"

definition marker_path :: "config \<Rightarrow> string \<Rightarrow> string" where
  "marker_path cfg dir = join [join [steamCommonPath cfg, dir], ''steam_appid.txt'']"







text \<open>Nothing that is in the file system of \<open>w\<close> is gone or changed in \<open>w'\<close>.\<close>

definition fs_le :: "world \<Rightarrow> world \<Rightarrow> bool" where
  "fs_le w w' = (\<forall>k n. map_of (fs w) k = Some n \<longrightarrow> map_of (fs w') k = Some n)"

text \<open>
  \<open>ev\<close> is the copy of a candidate of \<open>vs\<close> that is square and has the depth \<open>hi\<close>, to a
  destination that did not exist in \<open>w\<close> and exists in \<open>w'\<close>.
\<close>

definition copy_event ::
  "config \<Rightarrow> string \<Rightarrow> nat option \<Rightarrow> world \<Rightarrow> world \<Rightarrow> candidate list \<Rightarrow> event \<Rightarrow> bool" where
  "copy_event cfg app_id hi w w' vs ev =
     (\<exists>v \<in> set vs. ev = Copied (path v) (destPath_of cfg app_id v)
        \<and> height v = width v \<and> Some (Number (bitdepth v)) = hi
        \<and> \<not> existsSync (destPath_of cfg app_id v) w
        \<and> existsSync (destPath_of cfg app_id v) w')"

text \<open>What the loop of \<open>installIcon\<close> keeps true from its start (\<open>s\<close>, \<open>w\<close>) to its end.\<close>

definition loop_inv ::
  "config \<Rightarrow> string \<Rightarrow> nat option \<Rightarrow> candidate list \<Rightarrow> bool \<Rightarrow> world \<Rightarrow> bool \<Rightarrow> world \<Rightarrow> bool" where
  "loop_inv cfg app_id hi vs s w s' w' =
     (fs_le w w' \<and> lastIndex w' = lastIndex w \<and> shortcuts w' = shortcuts w \<and> (s \<longrightarrow> s')
      \<and> (\<exists>new. copies w' = copies w @ new \<and> (new \<noteq> [] \<longrightarrow> s')
            \<and> (\<forall>ev \<in> set new. copy_event cfg app_id hi w w' vs ev)))"

subsection \<open>A small installation, for concrete runs\<close>

text \<open>A line of \<open>steamcmd\<close>'s output that names the icon hash \<open>h\<close>.\<close>

definition clienticon_line :: "string \<Rightarrow> string" where
  "clienticon_line h =
     [CHR 0x09, CHR 0x09, QUOTE] @ ''clienticon'' @ [QUOTE, CHR 0x09, CHR 0x09, QUOTE] @ h @ [QUOTE, LF]"

text \<open>
  An environment in which every step works: \<open>steamcmd\<close> prints the hash \<open>abc\<close> and ends
  with code 0, the download succeeds, and \<open>icotool\<close> extracts three images, of sizes
  (64,64,32), (64,64,8) and (32,16,32).
\<close>

definition demo_env :: env where
  "demo_env =
     \<lparr>steamcmd = (\<lambda>app_id. ([''Loading Steam API...OK'' @ [LF], clienticon_line ''abc''], Some 0)),
      fetch = (\<lambda>url. Ok ''ICO''),
      icotool = (\<lambda>src dest. Inr [(''abc_1_64x64x32.png'', ''P1''), (''abc_2_64x64x8.png'', ''P2''),
                                  (''abc_3_32x16x32.png'', ''P3'')]),
      os_tmpdir = ''/tmp'',
      mkdtemp_suffix = ''XXXXXX''\<rparr>"

text \<open>\<open>steamcmd\<close> fails (code 1, no hash in its output), and \<open>icotool\<close> cannot open a file
  that does not exist, such as \<open>null\<close>.\<close>

definition failing_steamcmd_env :: env where
  "failing_steamcmd_env =
     demo_env\<lparr>steamcmd := (\<lambda>app_id. ([''Loading Steam API...OK'' @ [LF]], Some 1)),
              icotool := (\<lambda>src dest. Inl (''icotool: '' @ src @ '': cannot open file''))\<rparr>"

text \<open>\<open>steamcmd\<close> ends with code 0 and has printed no hash (an application without a
  client icon).\<close>

definition no_icon_env :: env where
  "no_icon_env =
     demo_env\<lparr>steamcmd := (\<lambda>app_id. ([''Loading Steam API...OK'' @ [LF]], Some 0))\<rparr>"

text \<open>\<open>icotool\<close> leaves a file in the directory whose name has no size in it.\<close>

definition stray_file_env :: env where
  "stray_file_env =
     demo_env\<lparr>icotool := (\<lambda>src dest. Inr [(''abc_1_64x64x32.png'', ''P1''), (''README'', ''text'')])\<rparr>"

definition demo_config :: config where
  "demo_config =
     \<lparr>steamCommonPath = ''/l/steamapps/common'',
      applicationPath = ''/h/.local/share/applications/steam'',
      iconPath = ''/h/.local/share/icons/hicolor'',
      tmpDir = ''/tmp/sdfg-XXXXXX''\<rparr>"

text \<open>The machine before the program starts: one game, Portal, with id 400, and theme
  directories for the sizes 64x64 and 32x16.\<close>

definition fresh_world :: world where
  "fresh_world =
     \<lparr>fs = [(''/tmp'', Dir True),
            (''/h/.local/share/applications/steam'', Dir True),
            (''/h/.local/share/icons/hicolor/64x64/apps'', Dir True),
            (''/h/.local/share/icons/hicolor/32x16/apps'', Dir True),
            (''/l/steamapps/common'', Dir True),
            (''/l/steamapps/common/Portal'', Dir True),
            (''/l/steamapps/common/Portal/steam_appid.txt'', File (''400'' @ [LF]))],
      lastIndex = 0,
      trace = []\<rparr>"

text \<open>The same machine once the module has created its temporary directory.\<close>

definition demo_world :: world where
  "demo_world = fresh_world\<lparr>fs := fs fresh_world @ [(''/tmp/sdfg-XXXXXX'', Dir True)]\<rparr>"

text \<open>The three candidates \<open>extractIco\<close> returns in this installation, and the world it
  leaves (line 115).\<close>

definition icon_64 :: candidate where
  "icon_64 = \<lparr>path = ''/tmp/sdfg-XXXXXX/400/abc_1_64x64x32.png'',
              width = ''64'', height = ''64'', bitdepth = ''32''\<rparr>"

definition demo_sizes :: "candidate option list" where
  "demo_sizes =
     [Some icon_64,
      Some \<lparr>path = ''/tmp/sdfg-XXXXXX/400/abc_2_64x64x8.png'',
            width = ''64'', height = ''64'', bitdepth = ''8''\<rparr>,
      Some \<lparr>path = ''/tmp/sdfg-XXXXXX/400/abc_3_32x16x32.png'',
            width = ''32'', height = ''16'', bitdepth = ''32''\<rparr>]"

definition extracted_world :: world where
  "extracted_world =
     demo_world\<lparr>fs := fs demo_world @
        [(''/tmp/sdfg-XXXXXX/abc'', File ''ICO''),
         (''/tmp/sdfg-XXXXXX/400'', Dir True),
         (''/tmp/sdfg-XXXXXX/400/abc_1_64x64x32.png'', File ''P1''),
         (''/tmp/sdfg-XXXXXX/400/abc_2_64x64x8.png'', File ''P2''),
         (''/tmp/sdfg-XXXXXX/400/abc_3_32x16x32.png'', File ''P3'')]\<rparr>"

text \<open>The same, with a theme directory that takes no new entries.\<close>

definition locked_world :: world where
  "locked_world =
     extracted_world\<lparr>fs := AList.update ''/h/.local/share/icons/hicolor/64x64/apps'' (Dir False)
                               (fs extracted_world)\<rparr>"

text \<open>The same, with the icon of the game installed by an earlier run.\<close>

definition installed_world :: world where
  "installed_world =
     extracted_world\<lparr>fs := fs extracted_world @
        [(''/h/.local/share/icons/hicolor/64x64/apps/steam_icon_400.png'', File ''OLD'')]\<rparr>"

text \<open>A root whose \<open>steamapps/common\<close> is a regular file.\<close>

definition common_is_file_world :: world where
  "common_is_file_world =
     \<lparr>fs = [(''/tmp'', Dir True), (''/l/steamapps'', Dir True),
            (''/l/steamapps/common'', File [])],
      lastIndex = 0,
      trace = []\<rparr>"

text \<open>Portal's marker file with an empty first line: a lone line feed, and a carriage
  return before the line feed.\<close>

definition empty_marker_world :: world where
  "empty_marker_world =
     demo_world\<lparr>fs := AList.update ''/l/steamapps/common/Portal/steam_appid.txt''
                          (File [LF]) (fs demo_world)\<rparr>"

definition crlf_marker_world :: world where
  "crlf_marker_world =
     demo_world\<lparr>fs := AList.update ''/l/steamapps/common/Portal/steam_appid.txt''
                          (File [CR, LF]) (fs demo_world)\<rparr>"




definition portal_shortcut :: string where
  "portal_shortcut = ''/h/.local/share/applications/steam/Portal.desktop''"

section \<open>Properties\<close>

subsection \<open>The file system only grows; what each step adds to the events\<close>

lemma fs_le_refl: "fs_le w w"
  by (simp add: fs_le_def)

lemma fs_le_trans: "fs_le a b \<Longrightarrow> fs_le b c \<Longrightarrow> fs_le a c"
  by (simp add: fs_le_def)

lemma emit_simps:
  "fs (emit ev w) = fs w" "lastIndex (emit ev w) = lastIndex w"
  "trace (emit ev w) = trace w @ [ev]"
  by (simp_all add: emit_def)

lemma lookup_emit: "lookup (emit ev w) p = lookup w p"
  by (simp add: lookup_def emit_simps)

lemma existsSync_emit: "existsSync p (emit ev w) = existsSync p w"
  by (simp add: existsSync_def lookup_emit)

lemma fs_le_emit: "fs_le w (emit ev w)" "fs_le (emit ev w) w"
  by (simp_all add: fs_le_def emit_simps)

lemma copies_emit: "copies (emit ev w) = copies w @ (if is_copy ev then [ev] else [])"
  by (simp add: copies_def emit_simps)

lemma shortcuts_emit: "shortcuts (emit ev w) = shortcuts w @ (if is_write ev then [ev] else [])"
  by (simp add: shortcuts_def emit_simps)

lemma lookup_mono: "fs_le w w' \<Longrightarrow> lookup w p = Some n \<Longrightarrow> lookup w' p = Some n"
  by (auto simp: fs_le_def lookup_def split: option.splits node.splits if_splits)

lemma existsSync_mono: "fs_le w w' \<Longrightarrow> existsSync p w \<Longrightarrow> existsSync p w'"
  by (auto simp: existsSync_def dest: lookup_mono)

lemma store_new:
  assumes "lookup w p = None" and "store p c w = Inr w'"
  shows "map_of (fs w) p = None \<and> canon p = p \<and> w' = w\<lparr>fs := AList.update p (File c) (fs w)\<rparr>"
  using assms
  by (auto simp: store_def lookup_def split: option.splits node.splits if_splits)

lemma copyFile_new:
  assumes "\<not> existsSync dst w" and "copyFile src dst w = Inr w'"
  shows "fs_le w w' \<and> existsSync dst w' \<and> lastIndex w' = lastIndex w
         \<and> trace w' = trace w @ [Copied src dst]"
proof -
  from assms(2) obtain c w1 where c: "readFile src w = Inr c" and s: "store dst c w = Inr w1"
    and w': "w' = emit (Copied src dst) w1"
    by (auto simp: copyFile_def split: sum.splits)
  from assms(1) have n: "lookup w dst = None" by (simp add: existsSync_def)
  from store_new[OF n s] have m: "map_of (fs w) dst = None" and cn: "canon dst = dst"
    and w1: "w1 = w\<lparr>fs := AList.update dst (File c) (fs w)\<rparr>" by auto
  have "fs_le w w'" using m by (auto simp: fs_le_def w' w1 emit_simps update_conv')
  moreover have "existsSync dst w'"
    by (simp add: existsSync_def lookup_def w' w1 emit_simps update_conv' cn)
  ultimately show ?thesis by (simp add: w' w1 emit_simps)
qed

lemma copy_event_tail:
  "copy_event cfg app_id hi w w' rest ev \<Longrightarrow> copy_event cfg app_id hi w w' (v # rest) ev"
  by (auto simp: copy_event_def)

lemma copy_event_earlier:
  "copy_event cfg app_id hi w1 w' vs ev \<Longrightarrow> fs_le w w1 \<Longrightarrow> copy_event cfg app_id hi w w' vs ev"
  unfolding copy_event_def using existsSync_mono by blast

lemma loop_inv_skip:
  assumes "loop_inv cfg app_id hi rest s w s' w'"
  shows "loop_inv cfg app_id hi (v # rest) s w s' w'"
  using assms unfolding loop_inv_def using copy_event_tail by blast

lemma loop_inv_set:
  assumes "loop_inv cfg app_id hi rest True w s' w'"
  shows "loop_inv cfg app_id hi (v # rest) s w s' w'"
  using assms unfolding loop_inv_def using copy_event_tail by blast

lemma loop_inv_log:
  assumes "loop_inv cfg app_id hi rest s (emit (ConsoleError m) w) s' w'"
  shows "loop_inv cfg app_id hi (v # rest) s w s' w'"
proof -
  let ?w1 = "emit (ConsoleError m) w"
  from assms obtain new where a: "fs_le ?w1 w'" "lastIndex w' = lastIndex ?w1"
    "shortcuts w' = shortcuts ?w1" "s \<longrightarrow> s'" "copies w' = copies ?w1 @ new" "new \<noteq> [] \<longrightarrow> s'"
    "\<forall>ev \<in> set new. copy_event cfg app_id hi ?w1 w' rest ev"
    unfolding loop_inv_def by blast
  have "fs_le w w'" using fs_le_emit(1) a(1) by (rule fs_le_trans)
  moreover have "copies w' = copies w @ new" using a(5) by (simp add: copies_emit is_copy_def)
  moreover have "shortcuts w' = shortcuts w" using a(3) by (simp add: shortcuts_emit is_write_def)
  moreover have "lastIndex w' = lastIndex w" using a(2) by (simp add: emit_simps)
  moreover have "\<forall>ev \<in> set new. copy_event cfg app_id hi w w' (v # rest) ev"
    using a(7) copy_event_earlier[OF _ fs_le_emit(1)] copy_event_tail by blast
  ultimately show ?thesis unfolding loop_inv_def using a(4,6) by auto
qed

lemma loop_inv_copy:
  assumes run: "loop_inv cfg app_id hi rest True w1 s' w'"
    and v: "height v = width v" "Some (Number (bitdepth v)) = hi"
    and no: "\<not> existsSync (destPath_of cfg app_id v) w"
    and cp: "copyFile (path v) (destPath_of cfg app_id v) w = Inr w1"
  shows "loop_inv cfg app_id hi (v # rest) s w s' w'"
proof -
  let ?dst = "destPath_of cfg app_id v"
  from copyFile_new[OF no cp] have le: "fs_le w w1" and ex: "existsSync ?dst w1"
    and li: "lastIndex w1 = lastIndex w" and tr: "trace w1 = trace w @ [Copied (path v) ?dst]"
    by auto
  from run obtain new where a: "fs_le w1 w'" "lastIndex w' = lastIndex w1"
    "shortcuts w' = shortcuts w1" "s'" "copies w' = copies w1 @ new"
    "\<forall>ev \<in> set new. copy_event cfg app_id hi w1 w' rest ev"
    unfolding loop_inv_def by blast
  have c1: "copies w1 = copies w @ [Copied (path v) ?dst]"
    by (simp add: copies_def tr is_copy_def)
  have s1: "shortcuts w1 = shortcuts w" by (simp add: shortcuts_def tr is_write_def)
  have le': "fs_le w w'" using le a(1) by (rule fs_le_trans)
  have hd: "copy_event cfg app_id hi w w' (v # rest) (Copied (path v) ?dst)"
    unfolding copy_event_def using v no existsSync_mono[OF a(1) ex] by auto
  have tl: "\<forall>ev \<in> set new. copy_event cfg app_id hi w w' (v # rest) ev"
    using a(6) copy_event_earlier[OF _ le] copy_event_tail by blast
  have "copies w' = copies w @ (Copied (path v) ?dst # new)" by (simp add: a(5) c1)
  moreover have "\<forall>ev \<in> set (Copied (path v) ?dst # new). copy_event cfg app_id hi w w' (v # rest) ev"
    using hd tl by simp
  ultimately have "\<exists>new'. copies w' = copies w @ new' \<and> (new' \<noteq> [] \<longrightarrow> s')
      \<and> (\<forall>ev \<in> set new'. copy_event cfg app_id hi w w' (v # rest) ev)"
    using a(4) by blast
  then show ?thesis unfolding loop_inv_def using le' a(2,3,4) li s1 by simp
qed

text \<open>One iteration of the loop: which of its six ways it takes, and how it goes on.\<close>

lemma install_loop_step:
  obtains
    (notsq) "height v \<noteq> width v"
      "install_loop cfg app_id hi (v # rest) s w =
         install_loop cfg app_id hi rest s
           (emit (ConsoleError (''Icon '' @ [CHR 0x27] @ path v @ [CHR 0x27] @ '' is not square!'')) w)"
  | (depth) "height v = width v" "Some (Number (bitdepth v)) \<noteq> hi"
      "install_loop cfg app_id hi (v # rest) s w = install_loop cfg app_id hi rest s w"
  | (nodir) "height v = width v" "Some (Number (bitdepth v)) = hi"
      "\<not> existsSync (iconDir_of cfg v) w"
      "install_loop cfg app_id hi (v # rest) s w = install_loop cfg app_id hi rest s w"
  | (there) "height v = width v" "Some (Number (bitdepth v)) = hi"
      "existsSync (iconDir_of cfg v) w" "existsSync (destPath_of cfg app_id v) w"
      "install_loop cfg app_id hi (v # rest) s w = install_loop cfg app_id hi rest True w"
  | (fail) er where "height v = width v" "Some (Number (bitdepth v)) = hi"
      "existsSync (iconDir_of cfg v) w" "\<not> existsSync (destPath_of cfg app_id v) w"
      "copyFile (path v) (destPath_of cfg app_id v) w = Inl er"
      "install_loop cfg app_id hi (v # rest) s w = install_loop cfg app_id hi rest s w"
  | (copy) w1 where "height v = width v" "Some (Number (bitdepth v)) = hi"
      "existsSync (iconDir_of cfg v) w" "\<not> existsSync (destPath_of cfg app_id v) w"
      "copyFile (path v) (destPath_of cfg app_id v) w = Inr w1"
      "install_loop cfg app_id hi (v # rest) s w = install_loop cfg app_id hi rest True w1"
proof (cases "height v = width v")
  case False
  then show ?thesis using notsq by simp
next
  case sq: True
  show ?thesis
  proof (cases "Some (Number (bitdepth v)) = hi")
    case False
    with sq show ?thesis using depth by simp
  next
    case d: True
    show ?thesis
    proof (cases "existsSync (iconDir_of cfg v) w")
      case False
      with sq d show ?thesis using nodir by (simp add: iconDir_of_def)
    next
      case dir: True
      show ?thesis
      proof (cases "existsSync (destPath_of cfg app_id v) w")
        case True
        with sq d dir show ?thesis using there by (simp add: iconDir_of_def destPath_of_def)
      next
        case no: False
        show ?thesis
        proof (cases "copyFile (path v) (destPath_of cfg app_id v) w")
          case (Inl er)
          with sq d dir no show ?thesis using fail[of er]
            by (simp add: iconDir_of_def destPath_of_def)
        next
          case (Inr w1)
          with sq d dir no show ?thesis using copy[of w1]
            by (simp add: iconDir_of_def destPath_of_def)
        qed
      qed
    qed
  qed
qed

lemma install_loop_inv:
  "install_loop cfg app_id hi vs s w = (s', w') \<Longrightarrow> loop_inv cfg app_id hi vs s w s' w'"
proof (induction vs arbitrary: s w)
  case Nil
  then show ?case by (auto simp: loop_inv_def fs_le_refl)
next
  case (Cons v rest)
  show ?case
  proof (cases rule: install_loop_step[of v cfg app_id hi rest s w])
    case notsq
    from Cons.IH[OF Cons.prems[unfolded notsq(2)]] show ?thesis by (rule loop_inv_log)
  next
    case depth
    from Cons.IH[OF Cons.prems[unfolded depth(3)]] show ?thesis by (rule loop_inv_skip)
  next
    case nodir
    from Cons.IH[OF Cons.prems[unfolded nodir(4)]] show ?thesis by (rule loop_inv_skip)
  next
    case there
    from Cons.IH[OF Cons.prems[unfolded there(5)]] show ?thesis by (rule loop_inv_set)
  next
    case (fail er)
    from Cons.IH[OF Cons.prems[unfolded fail(6)]] show ?thesis by (rule loop_inv_skip)
  next
    case (copy w1)
    from loop_inv_copy[OF Cons.IH[OF Cons.prems[unfolded copy(6)]] copy(1,2,4,5)]
    show ?thesis .
  qed
qed

lemma copies_lastIndex: "copies (w\<lparr>lastIndex := li\<rparr>) = copies w"
  "shortcuts (w\<lparr>lastIndex := li\<rparr>) = shortcuts w"
  by (simp_all add: copies_def shortcuts_def)

lemma copies_fs: "copies (w\<lparr>fs := f\<rparr>) = copies w" "shortcuts (w\<lparr>fs := f\<rparr>) = shortcuts w"
  by (simp_all add: copies_def shortcuts_def)

lemma getIconHash_frame:
  assumes "getIconHash e app_id w = (r, w')"
  shows "copies w' = copies w \<and> shortcuts w' = shortcuts w \<and> fs w' = fs w"
  using assms
  by (auto simp: getIconHash_def Let_def copies_emit shortcuts_emit copies_lastIndex emit_simps
        is_copy_def is_write_def split: prod.splits option.splits nat.splits)

lemma writeStream_wx_frame:
  assumes "writeStream_wx p c w = Inr w'"
  shows "copies w' = copies w \<and> shortcuts w' = shortcuts w \<and> fs_le w w'"
proof -
  from assms have n: "map_of (fs w) (canon p) = None"
    by (auto simp: writeStream_wx_def split: if_splits)
  then have l: "lookup w p = None" by (simp add: lookup_def)
  from assms n obtain w1 where s: "store p c w = Inr w1" and w': "w' = emit (Streamed p c) w1"
    by (auto simp: writeStream_wx_def split: sum.splits)
  from store_new[OF l s] have m: "map_of (fs w) p = None"
    and w1: "w1 = w\<lparr>fs := AList.update p (File c) (fs w)\<rparr>" by auto
  have "fs_le w w'" using m by (auto simp: fs_le_def w' w1 emit_simps update_conv')
  then show ?thesis
    by (simp add: w' w1 copies_emit shortcuts_emit copies_fs is_copy_def is_write_def)
qed

lemma downloadIcon_frame:
  assumes "downloadIcon e cfg app_id w = (r, w')"
  shows "copies w' = copies w \<and> shortcuts w' = shortcuts w \<and> fs_le w w'"
proof (cases "getIconHash e app_id w")
  case (Pair r1 w1)
  note f = getIconHash_frame[OF Pair]
  then have le: "fs_le w w1" by (simp add: fs_le_def)
  show ?thesis
  proof (cases "\<exists>h. r1 = Resolved (Some h) \<and> h \<noteq> []")
    case False
    with assms Pair have "w' = w1"
      by (auto simp: downloadIcon_def split: outcome.splits option.splits if_splits)
    with f le show ?thesis by simp
  next
    case True
    then obtain h where h: "r1 = Resolved (Some h)" "h \<noteq> []" by blast
    let ?url = "steamIconBase @ app_id @ ''/'' @ h @ ''.ico''"
    let ?w2 = "emit (Fetched ?url) (emit (ConsoleLog ?url) w1)"
    have f2: "copies ?w2 = copies w" "shortcuts ?w2 = shortcuts w" "fs_le w ?w2"
      using f le by (simp_all add: copies_emit shortcuts_emit is_copy_def is_write_def fs_le_def emit_simps)
    show ?thesis
    proof (cases "fetch e ?url")
      case (Ok body)
      show ?thesis
      proof (cases "writeStream_wx (join [tmpDir cfg, h]) body ?w2")
        case (Inl er)
        with assms Pair h Ok have "w' = ?w2" by (simp add: downloadIcon_def Let_def)
        with f2 show ?thesis by simp
      next
        case (Inr w3)
        with assms Pair h Ok have "w' = w3" by (simp add: downloadIcon_def Let_def)
        with writeStream_wx_frame[OF Inr] f2 show ?thesis by (auto intro: fs_le_trans)
      qed
    next
      case (NotOk body)
      with assms Pair h have "w' = emit (ConsoleError (''Could not fetch icon! '' @ body)) ?w2"
        by (simp add: downloadIcon_def Let_def)
      with f2 show ?thesis
        by (simp add: copies_emit shortcuts_emit is_copy_def is_write_def fs_le_def emit_simps)
    next
      case NetworkError
      with assms Pair h have "w' = ?w2" by (simp add: downloadIcon_def Let_def)
      with f2 show ?thesis by simp
    next
      case NoResponse
      with assms Pair h have "w' = ?w2" by (simp add: downloadIcon_def Let_def)
      with f2 show ?thesis by simp
    qed
  qed
qed

lemma mkdir_frame:
  assumes "mkdir p w = Inr w'"
  shows "copies w' = copies w \<and> shortcuts w' = shortcuts w \<and> fs_le w w'"
  using assms
  by (auto simp: mkdir_def copies_emit shortcuts_emit copies_fs is_copy_def is_write_def
        fs_le_def emit_simps update_conv' split: if_splits option.splits)

lemma extractIco_frame:
  assumes "extractIco e src dest w = (r, w')"
  shows "copies w' = copies w \<and> shortcuts w' = shortcuts w"
proof (cases "mkdir dest w")
  case (Inl er)
  with assms show ?thesis by (simp add: extractIco_def)
next
  case (Inr w1)
  note m = mkdir_frame[OF Inr]
  show ?thesis using assms Inr m
    by (auto simp: extractIco_def Let_def copies_emit shortcuts_emit copies_fs is_copy_def
          is_write_def split: sum.splits)
qed

lemma Math_max_eq:
  assumes "xs \<noteq> []"
  shows "Math_max xs = Some (Max (set xs))"
proof -
  from assms obtain x rest where xs: "xs = x # rest" by (cases xs) auto
  have "foldl max x rest = fold max rest x"
    by (simp add: foldl_conv_fold max.commute)
  with Max.set_eq_fold[of x rest] show ?thesis by (simp add: Math_max_def xs)
qed

lemma new_copies_append: "copies w' = copies w @ new \<Longrightarrow> new_copies w w' = new"
  by (simp add: new_copies_def)

lemma install_sizes_cases:
  assumes "install_sizes cfg app_id sizes w = (r, w')"
  shows "(those sizes = None \<and> r = Rejected TypeError \<and> w' = w)
       \<or> (\<exists>vs s'. those sizes = Some vs \<and> r = Resolved s'
            \<and> install_loop cfg app_id (Math_max (map (\<lambda>v. Number (bitdepth v)) vs)) vs False w = (s', w'))"
  using assms by (auto simp: install_sizes_def Let_def split: option.splits prod.splits)

lemma installIcon_cases:
  assumes "installIcon e cfg app_id w = (r, w')"
  shows "(\<exists>ico w1 sizes w2.
            downloadIcon e cfg app_id w = (Resolved ico, w1)
          \<and> extractIco e ico (join [tmpDir cfg, app_id @ ''/'']) w1 = (Resolved sizes, w2)
          \<and> install_sizes cfg app_id sizes w2 = (r, w'))
       \<or> (copies w' = copies w \<and> shortcuts w' = shortcuts w \<and> (\<forall>b. r \<noteq> Resolved b))"
proof (cases "downloadIcon e cfg app_id w")
  case (Pair r1 w1)
  note d = downloadIcon_frame[OF Pair]
  show ?thesis
  proof (cases r1)
    case (Resolved ico)
    obtain r2 w2 where x: "extractIco e ico (join [tmpDir cfg, app_id @ ''/'']) w1 = (r2, w2)"
      by (cases "extractIco e ico (join [tmpDir cfg, app_id @ ''/'']) w1") auto
    note xf = extractIco_frame[OF x]
    show ?thesis
    proof (cases r2)
      case (Resolved sizes)
      with assms Pair \<open>r1 = Resolved ico\<close> x show ?thesis by (simp add: installIcon_def)
    next
      case (Rejected er)
      with assms Pair \<open>r1 = Resolved ico\<close> x d xf show ?thesis by (auto simp: installIcon_def)
    next
      case Pending
      with assms Pair \<open>r1 = Resolved ico\<close> x d xf show ?thesis by (auto simp: installIcon_def)
    qed
  next
    case (Rejected er)
    with assms Pair d show ?thesis by (auto simp: installIcon_def)
  next
    case Pending
    with assms Pair d show ?thesis by (auto simp: installIcon_def)
  qed
qed

lemma install_loop_flag:
  "install_loop cfg app_id hi vs True w = (s', w') \<Longrightarrow> s'"
  using install_loop_inv[of cfg app_id hi vs True w s' w'] by (simp add: loop_inv_def)

lemma install_loop_False:
  assumes "install_loop cfg app_id hi vs s w = (False, w')"
  shows "fs w' = fs w
       \<and> (\<forall>v \<in> set vs. height v = width v \<and> Some (Number (bitdepth v)) = hi
              \<and> existsSync (iconDir_of cfg v) w \<longrightarrow> \<not> existsSync (destPath_of cfg app_id v) w)"
  using assms
proof (induction vs arbitrary: s w)
  case Nil
  then show ?case by simp
next
  case (Cons v rest)
  show ?case
  proof (cases rule: install_loop_step[of v cfg app_id hi rest s w])
    case notsq
    from Cons.IH[OF Cons.prems[unfolded notsq(2)]] notsq(1) show ?thesis
      by (simp add: emit_simps existsSync_emit)
  next
    case depth
    from Cons.IH[OF Cons.prems[unfolded depth(3)]] depth(2) show ?thesis by simp
  next
    case nodir
    from Cons.IH[OF Cons.prems[unfolded nodir(4)]] nodir(3) show ?thesis by simp
  next
    case there
    from install_loop_flag[OF Cons.prems[unfolded there(5)]] show ?thesis by simp
  next
    case (fail er)
    from Cons.IH[OF Cons.prems[unfolded fail(6)]] fail(4) show ?thesis by simp
  next
    case (copy w1)
    from install_loop_flag[OF Cons.prems[unfolded copy(6)]] show ?thesis by simp
  qed
qed

lemma install_loop_present:
  assumes "install_loop cfg app_id hi vs s w = (s', w')"
    and "v \<in> set vs" and "height v = width v" and "Some (Number (bitdepth v)) = hi"
    and "existsSync (iconDir_of cfg v) w" and "existsSync (destPath_of cfg app_id v) w"
  shows "s'"
  using assms
proof (induction vs arbitrary: s w)
  case Nil
  then show ?case by simp
next
  case (Cons u rest)
  note run = Cons.prems(1) and here = Cons.prems(3,4,5,6)
  show ?case
  proof (cases rule: install_loop_step[of u cfg app_id hi rest s w])
    case notsq
    with here Cons.prems(2) have mem: "v \<in> set rest" by auto
    from Cons.IH[OF run[unfolded notsq(2)] mem here(1,2)] here(3,4) show ?thesis
      by (simp add: existsSync_emit)
  next
    case depth
    with here Cons.prems(2) have mem: "v \<in> set rest" by auto
    from Cons.IH[OF run[unfolded depth(3)] mem here] show ?thesis .
  next
    case nodir
    with here Cons.prems(2) have mem: "v \<in> set rest" by auto
    from Cons.IH[OF run[unfolded nodir(4)] mem here] show ?thesis .
  next
    case there
    from install_loop_flag[OF run[unfolded there(5)]] show ?thesis .
  next
    case (fail er)
    with here Cons.prems(2) have mem: "v \<in> set rest" by auto
    from Cons.IH[OF run[unfolded fail(6)] mem here] show ?thesis .
  next
    case (copy w1)
    from install_loop_flag[OF run[unfolded copy(6)]] show ?thesis .
  qed
qed

lemma copy_event_dst:
  assumes "copy_event cfg app_id hi w w' vs (Copied src dst)"
  shows "\<not> existsSync dst w \<and> existsSync dst w'"
  using assms by (auto simp: copy_event_def)

lemma install_sizes_copies:
  assumes "install_sizes cfg app_id sizes w = (r, w')"
    and "Copied src dst \<in> set (new_copies w w')"
  shows "\<not> existsSync dst w \<and> existsSync dst w' \<and> r = Resolved True"
proof -
  from assms(2) have ne: "copies w' \<noteq> copies w" by (auto simp: new_copies_def)
  with install_sizes_cases[OF assms(1)] obtain vs s' where r: "r = Resolved s'"
    and l: "install_loop cfg app_id (Math_max (map (\<lambda>v. Number (bitdepth v)) vs)) vs False w = (s', w')"
    by auto
  from install_loop_inv[OF l] obtain new where n: "copies w' = copies w @ new"
    and s: "new \<noteq> [] \<longrightarrow> s'"
    and c: "\<forall>ev \<in> set new. copy_event cfg app_id (Math_max (map (\<lambda>v. Number (bitdepth v)) vs)) w w' vs ev"
    unfolding loop_inv_def by blast
  from n have nn: "new_copies w w' = new" by (rule new_copies_append)
  with assms(2) c have "copy_event cfg app_id (Math_max (map (\<lambda>v. Number (bitdepth v)) vs)) w w' vs (Copied src dst)"
    by blast
  from copy_event_dst[OF this] assms(2) nn s r show ?thesis by auto
qed

lemma install_sizes_keeps:
  assumes "install_sizes cfg app_id sizes w = (r, w')"
  shows "fs_le w w'"
  using install_sizes_cases[OF assms] install_loop_inv
  by (auto simp: loop_inv_def fs_le_refl)

lemma update_new: "map_of al k = None \<Longrightarrow> AList.update k v al = al @ [(k, v)]"
  by (induction al) (auto split: if_splits)

lemma downloads_emit: "downloads (emit ev w) = downloads w @ (if is_stream ev then [ev] else [])"
  by (simp add: downloads_def emit_simps)

lemma mkdir_result:
  assumes "mkdir p w = Inr w'"
  shows "map_of (fs w) (canon p) = None
       \<and> w' = emit (MadeDir p) (w\<lparr>fs := fs w @ [(canon p, Dir True)]\<rparr>)"
  using assms by (auto simp: mkdir_def update_new split: if_splits option.splits)

lemma mkdir_exists:
  "map_of (fs w) (canon p) \<noteq> None \<Longrightarrow> mkdir p w = Inl (EEXIST p)"
  by (simp add: mkdir_def)

lemma installIcon_empty_id:
  assumes "existsSync (join [tmpDir cfg, ''/'']) w"
    and "installIcon e cfg [] w = (r, w')"
  shows "(\<forall>b. r \<noteq> Resolved b) \<and> copies w' = copies w \<and> shortcuts w' = shortcuts w"
proof -
  let ?dest = "join [tmpDir cfg, ''/'']"
  from assms(1) have m: "map_of (fs w) (canon ?dest) \<noteq> None"
    by (auto simp: existsSync_def lookup_def split: option.splits)
  from installIcon_cases[OF assms(2)] show ?thesis
  proof
    assume "\<exists>ico w1 sizes w2.
            downloadIcon e cfg [] w = (Resolved ico, w1)
          \<and> extractIco e ico (join [tmpDir cfg, [] @ ''/'']) w1 = (Resolved sizes, w2)
          \<and> install_sizes cfg [] sizes w2 = (r, w')"
    then obtain ico w1 sizes w2 where d: "downloadIcon e cfg [] w = (Resolved ico, w1)"
      and x: "extractIco e ico ?dest w1 = (Resolved sizes, w2)" by auto
    from downloadIcon_frame[OF d] have "fs_le w w1" by simp
    with m have "map_of (fs w1) (canon ?dest) \<noteq> None" by (auto simp: fs_le_def)
    from mkdir_exists[OF this] have "extractIco e ico ?dest w1 = (Rejected (EEXIST ?dest), w1)"
      by (simp add: extractIco_def)
    with x show ?thesis by simp
  next
    assume "copies w' = copies w \<and> shortcuts w' = shortcuts w \<and> (\<forall>b. r \<noteq> Resolved b)"
    then show ?thesis by simp
  qed
qed










subsection \<open>The selection loop of \<open>installIcon\<close>\<close>



text \<open>
  C7. \<open>install_sizes\<close> is \<open>installIcon\<close> from line 115 on, given the candidates. When the
  destination of an accepted candidate (square, largest depth, theme directory there)
  exists, \<open>installIcon\<close> returns \<open>true\<close> and the file keeps its contents. It also returns
  \<open>true\<close> when it has copied something; it changes nothing that exists; every copy goes to
  a path that did not exist; and a later run for the same game, over the same or other
  candidates, copies to no path the first run copied to, nor to any path that exists
  after it.
\<close>

theorem existing_destination_is_kept_and_counts:
  assumes "install_sizes cfg app_id sizes w = (r, w')"
  shows "(those sizes = Some vs \<and> v \<in> set vs
            \<and> height v = width v \<and> Number (bitdepth v) = max_depth vs
            \<and> existsSync (iconDir_of cfg v) w
            \<and> lookup w (destPath_of cfg app_id v) = Some (File c)
          \<longrightarrow> r = Resolved True \<and> lookup w' (destPath_of cfg app_id v) = Some (File c))
       \<and> (new_copies w w' \<noteq> [] \<longrightarrow> r = Resolved True)
       \<and> (\<forall>p n. lookup w p = Some n \<longrightarrow> lookup w' p = Some n)
       \<and> (\<forall>src dst. Copied src dst \<in> set (new_copies w w') \<longrightarrow> \<not> existsSync dst w)
       \<and> (\<forall>sizes2 r2 w2 src dst.
             install_sizes cfg app_id sizes2 w' = (r2, w2)
             \<and> Copied src dst \<in> set (new_copies w' w2)
           \<longrightarrow> \<not> existsSync dst w' \<and> (\<forall>src1. Copied src1 dst \<notin> set (new_copies w w')))"
proof -
  have le: "fs_le w w'" using assms by (rule install_sizes_keeps)
  have 1: "those sizes = Some vs \<and> v \<in> set vs
            \<and> height v = width v \<and> Number (bitdepth v) = max_depth vs
            \<and> existsSync (iconDir_of cfg v) w
            \<and> lookup w (destPath_of cfg app_id v) = Some (File c)
          \<longrightarrow> r = Resolved True \<and> lookup w' (destPath_of cfg app_id v) = Some (File c)"
  proof
    assume a: "those sizes = Some vs \<and> v \<in> set vs
            \<and> height v = width v \<and> Number (bitdepth v) = max_depth vs
            \<and> existsSync (iconDir_of cfg v) w
            \<and> lookup w (destPath_of cfg app_id v) = Some (File c)"
    then have vs: "those sizes = Some vs" and v: "v \<in> set vs" and sq: "height v = width v"
      and mx: "Number (bitdepth v) = max_depth vs" and dir: "existsSync (iconDir_of cfg v) w"
      and old: "lookup w (destPath_of cfg app_id v) = Some (File c)"
      by blast+
    from install_sizes_cases[OF assms] vs obtain s' where r: "r = Resolved s'"
      and l: "install_loop cfg app_id (Math_max (map (\<lambda>v. Number (bitdepth v)) vs)) vs False w = (s', w')"
      by auto
    from v have "map (\<lambda>v. Number (bitdepth v)) vs \<noteq> []" by auto
    from Math_max_eq[OF this] mx
    have d: "Some (Number (bitdepth v)) = Math_max (map (\<lambda>v. Number (bitdepth v)) vs)"
      by (simp add: max_depth_def)
    have ex: "existsSync (destPath_of cfg app_id v) w" using old by (simp add: existsSync_def)
    from install_loop_present[OF l v sq d dir ex] r have "r = Resolved True" by simp
    moreover have "lookup w' (destPath_of cfg app_id v) = Some (File c)"
      using lookup_mono[OF le old] .
    ultimately show "r = Resolved True \<and> lookup w' (destPath_of cfg app_id v) = Some (File c)"
      by simp
  qed
  have 2: "new_copies w w' \<noteq> [] \<longrightarrow> r = Resolved True"
  proof
    assume "new_copies w w' \<noteq> []"
    then obtain ev where ev: "ev \<in> set (new_copies w w')" by (cases "new_copies w w'") auto
    then have "is_copy ev" by (auto simp: new_copies_def copies_def dest: in_set_dropD)
    then obtain src dst where "ev = Copied src dst" by (cases ev) (auto simp: is_copy_def)
    with ev install_sizes_copies[OF assms] show "r = Resolved True" by blast
  qed
  have 3: "\<forall>p n. lookup w p = Some n \<longrightarrow> lookup w' p = Some n"
    using lookup_mono[OF le] by blast
  have 4: "\<forall>src dst. Copied src dst \<in> set (new_copies w w') \<longrightarrow> \<not> existsSync dst w"
    using install_sizes_copies[OF assms] by blast
  have 5: "\<forall>sizes2 r2 w2 src dst.
             install_sizes cfg app_id sizes2 w' = (r2, w2)
             \<and> Copied src dst \<in> set (new_copies w' w2)
           \<longrightarrow> \<not> existsSync dst w' \<and> (\<forall>src1. Copied src1 dst \<notin> set (new_copies w w'))"
  proof (intro allI impI)
    fix sizes2 r2 w2 src dst
    assume a: "install_sizes cfg app_id sizes2 w' = (r2, w2)
             \<and> Copied src dst \<in> set (new_copies w' w2)"
    then have n: "\<not> existsSync dst w'" using install_sizes_copies by blast
    moreover have "\<forall>src1. Copied src1 dst \<notin> set (new_copies w w')"
      using install_sizes_copies[OF assms] n by blast
    ultimately show "\<not> existsSync dst w' \<and> (\<forall>src1. Copied src1 dst \<notin> set (new_copies w w'))"
      by blast
  qed
  from 1 2 3 4 5 show ?thesis by blast
qed

theorem existing_destination_is_kept_and_counts_witness:
  "install_sizes demo_config ''400'' demo_sizes installed_world =
     (Resolved True, snd (install_sizes demo_config ''400'' demo_sizes installed_world))
   \<and> those demo_sizes = Some (map the demo_sizes) \<and> icon_64 \<in> set (map the demo_sizes)
   \<and> height icon_64 = width icon_64
   \<and> Number (bitdepth icon_64) = max_depth (map the demo_sizes)
   \<and> existsSync (iconDir_of demo_config icon_64) installed_world
   \<and> lookup installed_world (destPath_of demo_config ''400'' icon_64) = Some (File ''OLD'')
   \<and> lookup (snd (install_sizes demo_config ''400'' demo_sizes installed_world))
        (destPath_of demo_config ''400'' icon_64) = Some (File ''OLD'')
   \<and> new_copies installed_world (snd (install_sizes demo_config ''400'' demo_sizes installed_world)) = []
   \<and> new_copies extracted_world (snd (install_sizes demo_config ''400'' demo_sizes extracted_world)) =
       [Copied ''/tmp/sdfg-XXXXXX/400/abc_1_64x64x32.png''
               ''/h/.local/share/icons/hicolor/64x64/apps/steam_icon_400.png'']
   \<and> new_copies (snd (install_sizes demo_config ''400'' demo_sizes extracted_world))
        (snd (install_sizes demo_config ''400'' demo_sizes
           (snd (install_sizes demo_config ''400'' demo_sizes extracted_world)))) = []"
proof -
  have run: "install_sizes demo_config ''400'' demo_sizes installed_world =
     (Resolved True, snd (install_sizes demo_config ''400'' demo_sizes installed_world))"
    by code_simp
  have h: "those demo_sizes = Some (map the demo_sizes) \<and> icon_64 \<in> set (map the demo_sizes)
      \<and> height icon_64 = width icon_64
      \<and> Number (bitdepth icon_64) = max_depth (map the demo_sizes)
      \<and> existsSync (iconDir_of demo_config icon_64) installed_world
      \<and> lookup installed_world (destPath_of demo_config ''400'' icon_64) = Some (File ''OLD'')"
    by code_simp
  have n0: "new_copies installed_world (snd (install_sizes demo_config ''400'' demo_sizes installed_world)) = []"
    by code_simp
  have n1: "new_copies extracted_world (snd (install_sizes demo_config ''400'' demo_sizes extracted_world)) =
       [Copied ''/tmp/sdfg-XXXXXX/400/abc_1_64x64x32.png''
               ''/h/.local/share/icons/hicolor/64x64/apps/steam_icon_400.png'']"
    by code_simp
  have n2: "new_copies (snd (install_sizes demo_config ''400'' demo_sizes extracted_world))
        (snd (install_sizes demo_config ''400'' demo_sizes
           (snd (install_sizes demo_config ''400'' demo_sizes extracted_world)))) = []"
    by code_simp
  from existing_destination_is_kept_and_counts[OF run, of "map the demo_sizes" icon_64 "''OLD''"]
    h run n0 n1 n2 show ?thesis by blast
qed

text \<open>
  C10. When \<open>copyFile\<close> fails for an accepted candidate, the iteration goes on with the
  candidates that are left in the same world (nothing is logged, nothing is written) and
  with the flag as it was. And when \<open>installIcon\<close> returns \<open>false\<close>, it has copied
  nothing, the file system is as before, and no accepted candidate with a theme
  directory had its destination there already.
\<close>

theorem copy_failure_is_swallowed:
  "(height v = width v \<and> Some (Number (bitdepth v)) = highestDepth
      \<and> existsSync (iconDir_of cfg v) w \<and> \<not> existsSync (destPath_of cfg app_id v) w
      \<and> copyFile (path v) (destPath_of cfg app_id v) w = Inl er
    \<longrightarrow> install_loop cfg app_id highestDepth (v # rest) succeeded w
          = install_loop cfg app_id highestDepth rest succeeded w)
   \<and> (install_sizes cfg app_id sizes w = (Resolved False, w')
    \<longrightarrow> new_copies w w' = [] \<and> fs w' = fs w
        \<and> (\<forall>vs u. those sizes = Some vs \<and> u \<in> set vs
              \<and> height u = width u \<and> Number (bitdepth u) = max_depth vs
              \<and> existsSync (iconDir_of cfg u) w
            \<longrightarrow> \<not> existsSync (destPath_of cfg app_id u) w))"
proof (intro conjI impI)
  assume "height v = width v \<and> Some (Number (bitdepth v)) = highestDepth
      \<and> existsSync (iconDir_of cfg v) w \<and> \<not> existsSync (destPath_of cfg app_id v) w
      \<and> copyFile (path v) (destPath_of cfg app_id v) w = Inl er"
  then have "height v = width v" "Some (Number (bitdepth v)) = highestDepth"
    "existsSync (iconDir_of cfg v) w" "\<not> existsSync (destPath_of cfg app_id v) w"
    "copyFile (path v) (destPath_of cfg app_id v) w = Inl er"
    by blast+
  then show "install_loop cfg app_id highestDepth (v # rest) succeeded w
          = install_loop cfg app_id highestDepth rest succeeded w"
    by (simp add: iconDir_of_def destPath_of_def)
next
  assume run: "install_sizes cfg app_id sizes w = (Resolved False, w')"
  with install_sizes_cases[OF run] obtain vs where vs: "those sizes = Some vs"
    and l: "install_loop cfg app_id (Math_max (map (\<lambda>v. Number (bitdepth v)) vs)) vs False w = (False, w')"
    by auto
  note f = install_loop_False[OF l]
  from install_loop_inv[OF l] show "new_copies w w' = []"
    by (auto simp: loop_inv_def new_copies_def)
  from f show "fs w' = fs w" by simp
  show "\<forall>vs u. those sizes = Some vs \<and> u \<in> set vs
              \<and> height u = width u \<and> Number (bitdepth u) = max_depth vs
              \<and> existsSync (iconDir_of cfg u) w
            \<longrightarrow> \<not> existsSync (destPath_of cfg app_id u) w"
  proof (intro allI impI)
    fix vs' u
    assume a: "those sizes = Some vs' \<and> u \<in> set vs'
              \<and> height u = width u \<and> Number (bitdepth u) = max_depth vs'
              \<and> existsSync (iconDir_of cfg u) w"
    with vs have e: "vs' = vs" by simp
    from a e have "map (\<lambda>v. Number (bitdepth v)) vs \<noteq> []" by auto
    from Math_max_eq[OF this] a e
    have "Some (Number (bitdepth u)) = Math_max (map (\<lambda>v. Number (bitdepth v)) vs)"
      by (simp add: max_depth_def)
    with f a e show "\<not> existsSync (destPath_of cfg app_id u) w" by blast
  qed
qed

theorem copy_failure_is_swallowed_witness:
  "height icon_64 = width icon_64 \<and> Some (Number (bitdepth icon_64)) = Some 32
   \<and> existsSync (iconDir_of demo_config icon_64) locked_world
   \<and> \<not> existsSync (destPath_of demo_config ''400'' icon_64) locked_world
   \<and> copyFile (path icon_64) (destPath_of demo_config ''400'' icon_64) locked_world
       = Inl (EACCES ''/h/.local/share/icons/hicolor/64x64/apps/steam_icon_400.png'')
   \<and> install_loop demo_config ''400'' (Some 32) [icon_64] False locked_world
       = install_loop demo_config ''400'' (Some 32) [] False locked_world
   \<and> install_sizes demo_config ''400'' demo_sizes locked_world
       = (Resolved False, snd (install_sizes demo_config ''400'' demo_sizes locked_world))
   \<and> new_copies locked_world (snd (install_sizes demo_config ''400'' demo_sizes locked_world)) = []
   \<and> fs (snd (install_sizes demo_config ''400'' demo_sizes locked_world)) = fs locked_world"
proof -
  have h: "height icon_64 = width icon_64 \<and> Some (Number (bitdepth icon_64)) = Some 32
      \<and> existsSync (iconDir_of demo_config icon_64) locked_world
      \<and> \<not> existsSync (destPath_of demo_config ''400'' icon_64) locked_world
      \<and> copyFile (path icon_64) (destPath_of demo_config ''400'' icon_64) locked_world
          = Inl (EACCES ''/h/.local/share/icons/hicolor/64x64/apps/steam_icon_400.png'')"
    by code_simp
  have run: "install_sizes demo_config ''400'' demo_sizes locked_world
       = (Resolved False, snd (install_sizes demo_config ''400'' demo_sizes locked_world))"
    by code_simp
  from copy_failure_is_swallowed[of icon_64 "Some 32" demo_config locked_world "''400''"
      "EACCES ''/h/.local/share/icons/hicolor/64x64/apps/steam_icon_400.png''" "[]" False
      demo_sizes "snd (install_sizes demo_config ''400'' demo_sizes locked_world)"]
    h run show ?thesis by blast
qed

subsection \<open>Entries and the batch\<close>




text \<open>
  C9 (as amended). \<open>createDesktopFile\<close> does not look at the id. For the empty id the
  directory of line 114, \<open>join(tmpDir, '/')\<close>, is the temporary directory itself, which
  exists: \<open>mkdir\<close> fails, \<open>installIcon\<close> is rejected or never returns, and the entry ends
  with no icon copied and no shortcut written.
\<close>

theorem empty_id_installs_and_writes_nothing:
  assumes "readFile (marker_path cfg dir) w = Inr fd"
    and "first_line fd = []"
    and "existsSync (join [tmpDir cfg, ''/'']) w"
  shows "shortcuts (snd (createDesktopFile e cfg dir w)) = shortcuts w
       \<and> copies (snd (createDesktopFile e cfg dir w)) = copies w"
proof -
  obtain r w1 where i: "installIcon e cfg [] w = (r, w1)"
    by (cases "installIcon e cfg [] w") auto
  note n = installIcon_empty_id[OF assms(3) i]
  show ?thesis
  proof (cases r)
    case (Resolved b)
    with n show ?thesis by blast
  next
    case (Rejected er)
    with n i assms(1,2) show ?thesis
      by (auto simp: createDesktopFile_def Let_def marker_path_def shortcuts_emit copies_emit
            is_write_def is_copy_def split: sum.splits)
  next
    case Pending
    with n i assms(1,2) show ?thesis
      by (auto simp: createDesktopFile_def Let_def marker_path_def shortcuts_emit copies_emit
            is_write_def is_copy_def split: sum.splits)
  qed
qed

theorem empty_id_installs_and_writes_nothing_witness:
  "readFile (marker_path demo_config ''Portal'') empty_marker_world = Inr [LF]
   \<and> first_line [LF] = []
   \<and> existsSync (join [tmpDir demo_config, ''/'']) empty_marker_world
   \<and> shortcuts (snd (createDesktopFile demo_env demo_config ''Portal'' empty_marker_world))
       = shortcuts empty_marker_world
   \<and> copies (snd (createDesktopFile demo_env demo_config ''Portal'' empty_marker_world))
       = copies empty_marker_world
   \<and> last (trace (snd (createDesktopFile demo_env demo_config ''Portal'' empty_marker_world)))
       = ConsoleErrorObj (EEXIST ''/tmp/sdfg-XXXXXX/'')"
proof -
  have h: "readFile (marker_path demo_config ''Portal'') empty_marker_world = Inr [LF]
      \<and> first_line [LF] = []
      \<and> existsSync (join [tmpDir demo_config, ''/'']) empty_marker_world"
    by code_simp
  have l: "last (trace (snd (createDesktopFile demo_env demo_config ''Portal'' empty_marker_world)))
       = ConsoleErrorObj (EEXIST ''/tmp/sdfg-XXXXXX/'')"
    by code_simp
  from h empty_id_installs_and_writes_nothing[of demo_config "''Portal''" empty_marker_world "[LF]" demo_env]
    l show ?thesis by blast
qed

text \<open>
  C9 as stated fails for an id that is blank but not empty: a marker file whose first
  line is empty and ends with a carriage return and a line feed gives the id \<open>\r\<close>, and the
  entry gets its icon and its shortcut.
\<close>

theorem blank_id_gets_a_shortcut:
  "readFile (marker_path demo_config ''Portal'') crlf_marker_world = Inr [CR, LF]
   \<and> first_line [CR, LF] = [CR]
   \<and> shortcuts (snd (createDesktopFile demo_env demo_config ''Portal'' crlf_marker_world)) =
       [Wrote portal_shortcut (desktopFileContent ''Portal'' [CR] (''steam_icon_'' @ [CR]))]
   \<and> copies (snd (createDesktopFile demo_env demo_config ''Portal'' crlf_marker_world)) =
       [Copied (''/tmp/sdfg-XXXXXX/'' @ [CR] @ ''/abc_1_64x64x32.png'')
               (''/h/.local/share/icons/hicolor/64x64/apps/steam_icon_'' @ [CR] @ ''.png'')]"
  by code_simp

text \<open>
  C8 (as amended). When nothing exists at \<open><root>/steamapps/common\<close> (and that path is not
  the temporary directory), the process ends with code 1; it has written no shortcut,
  copied no icon and stored no download, and the file system is as before but for the
  temporary directory of line 23, if \<open>mkdtemp\<close> has succeeded.
\<close>

theorem missing_common_path_exits_1:
  assumes "args \<noteq> []"
    and "\<not> existsSync (common_of args) w"
    and "canon (tmp_path e) \<noteq> canon (common_of args)"
  shows "fst (program e args home w) = 1
       \<and> shortcuts (snd (program e args home w)) = shortcuts w
       \<and> copies (snd (program e args home w)) = copies w
       \<and> downloads (snd (program e args home w)) = downloads w
       \<and> (fs (snd (program e args home w)) = fs w
          \<or> (map_of (fs w) (canon (tmp_path e)) = None
              \<and> fs (snd (program e args home w)) = fs w @ [(canon (tmp_path e), Dir True)]))"
proof (cases home)
  case None
  with assms(1) show ?thesis
    by (simp add: program_def Let_def emit_simps shortcuts_emit copies_emit downloads_emit
          is_write_def is_copy_def is_stream_def)
next
  case (Some h)
  show ?thesis
  proof (cases "mkdir (tmp_path e) w")
    case (Inl er)
    with assms(1) Some show ?thesis
      by (simp add: program_def Let_def emit_simps shortcuts_emit copies_emit downloads_emit
            is_write_def is_copy_def is_stream_def)
  next
    case (Inr w1)
    from mkdir_result[OF Inr] have n: "map_of (fs w) (canon (tmp_path e)) = None"
      and w1: "w1 = emit (MadeDir (tmp_path e)) (w\<lparr>fs := fs w @ [(canon (tmp_path e), Dir True)]\<rparr>)"
      by auto
    have "map_of (fs w1) (canon (common_of args)) = map_of (fs w) (canon (common_of args))"
      using assms(3) by (simp add: w1 emit_simps map_add_def split: option.splits)
    then have "lookup w1 (common_of args) = lookup w (common_of args)"
      by (simp add: lookup_def)
    with assms(2) have no: "\<not> existsSync (common_of args) w1" by (simp add: existsSync_def)
    have p: "program e args home w = (1, emit (ConsoleError ''Invalid path.'') w1)"
      using assms(1) Some Inr no
      by (simp add: program_def Let_def createAllDesktops_def common_of_def)
    show ?thesis using n
      by (simp add: p w1 emit_simps shortcuts_emit copies_emit downloads_emit
            is_write_def is_copy_def is_stream_def shortcuts_def copies_def downloads_def)
  qed
qed

theorem missing_common_path_exits_1_witness:
  "[''/x''] \<noteq> [] \<and> \<not> existsSync (common_of [''/x'']) fresh_world
   \<and> canon (tmp_path demo_env) \<noteq> canon (common_of [''/x''])
   \<and> fst (program demo_env [''/x''] (Some ''/h'') fresh_world) = 1
   \<and> shortcuts (snd (program demo_env [''/x''] (Some ''/h'') fresh_world)) = shortcuts fresh_world
   \<and> copies (snd (program demo_env [''/x''] (Some ''/h'') fresh_world)) = copies fresh_world
   \<and> downloads (snd (program demo_env [''/x''] (Some ''/h'') fresh_world)) = downloads fresh_world
   \<and> fs (snd (program demo_env [''/x''] (Some ''/h'') fresh_world)) =
        fs fresh_world @ [(''/tmp/sdfg-XXXXXX'', Dir True)]"
proof -
  have h: "[''/x''] \<noteq> [] \<and> \<not> existsSync (common_of [''/x'']) fresh_world
      \<and> canon (tmp_path demo_env) \<noteq> canon (common_of [''/x''])"
    by code_simp
  have f: "fs (snd (program demo_env [''/x''] (Some ''/h'') fresh_world)) =
        fs fresh_world @ [(''/tmp/sdfg-XXXXXX'', Dir True)]"
    by code_simp
  from h missing_common_path_exits_1[of "[''/x'']" fresh_world demo_env "Some ''/h''"] f
  show ?thesis by blast
qed

text \<open>
  C8 as stated fails twice. A root whose \<open>steamapps/common\<close> is a regular file has no such
  subdirectory, yet \<open>existsSync\<close> holds, \<open>readdir\<close> fails, the error is logged and the exit
  code is 0. And with no \<open>steamapps/common\<close> at all, the file system is not as before: the
  temporary directory has been created.
\<close>

theorem exit_code_0_when_common_is_a_file:
  "lookup common_is_file_world (common_of [''/l'']) = Some (File [])
   \<and> fst (program demo_env [''/l''] (Some ''/h'') common_is_file_world) = 0
   \<and> trace (snd (program demo_env [''/l''] (Some ''/h'') common_is_file_world)) =
       [MadeDir ''/tmp/sdfg-XXXXXX'', ConsoleErrorObj (ENOTDIR ''/l/steamapps/common'')]
   \<and> \<not> existsSync (common_of [''/x'']) fresh_world
   \<and> fs (snd (program demo_env [''/x''] (Some ''/h'') fresh_world)) =
        fs fresh_world @ [(''/tmp/sdfg-XXXXXX'', Dir True)]"
  by code_simp

subsection \<open>Runs that fail\<close>

text \<open>
  C3. When \<open>icotool\<close> exits with a nonzero status, \<open>extractIco\<close> is to return the empty
  list. Here the promise of lines 30 to 40 is rejected, so the \<open>await\<close> of line 30 throws:
  with \<open>icotool\<close> failing on the source \<open>null\<close>, the call of \<open>extractIco\<close> is rejected with
  the error of \<open>exec\<close> after the message has been logged, and line 42 is not reached.
\<close>

theorem extractIco_rejects_on_icotool_failure:
  "extractIco failing_steamcmd_env None ''/tmp/sdfg-XXXXXX/400/'' demo_world =
     (Rejected (ExecError ''icotool: null: cannot open file''),
      demo_world\<lparr>fs := fs demo_world @ [(''/tmp/sdfg-XXXXXX/400'', Dir True)],
                 trace := [MadeDir ''/tmp/sdfg-XXXXXX/400/'',
                           Executed ''icotool -x null -o /tmp/sdfg-XXXXXX/400/'',
                           ConsoleError ''Could not extract icon sizes! icotool: null: cannot open file'']\<rparr>)"
  by code_simp

text \<open>
  C4. When the process closes with code 0 and no chunk of its output has matched,
  nothing resolves or rejects the promise of \<open>getIconHash\<close>: it stays pending.
\<close>

theorem getIconHash_pending_on_clean_exit:
  "getIconHash no_icon_env ''400'' demo_world =
     (Pending,
      demo_world\<lparr>trace := [Spawned ''steamcmd''
                   [''+login'', ''anonymous'', ''+app_info_print'', ''400'', ''+quit'']]\<rparr>)"
  by code_simp

text \<open>
  C5. A file name that does not match \<open>steamIconRegex\<close> is not dropped: \<open>files.map\<close> puts
  \<open>null\<close> in its place. With a file \<open>README\<close> beside an extracted image the list has a
  \<open>null\<close> element, and \<open>installIcon\<close> is rejected with the \<open>TypeError\<close> of line 116
  before any candidate is looked at.
\<close>

theorem extractIco_keeps_null_for_unmatched_name:
  "fst (extractIco stray_file_env (Some ''/tmp/sdfg-XXXXXX/abc'') ''/tmp/sdfg-XXXXXX/400/'' demo_world) =
     Resolved [Some \<lparr>path = ''/tmp/sdfg-XXXXXX/400/abc_1_64x64x32.png'',
                     width = ''64'', height = ''64'', bitdepth = ''32''\<rparr>,
               None]
   \<and> fst (installIcon stray_file_env demo_config ''400'' demo_world) = Rejected TypeError
   \<and> copies (snd (installIcon stray_file_env demo_config ''400'' demo_world)) = []"
  by code_simp

text \<open>
  C2. A game whose hash resolution fails is to get a shortcut with the icon \<open>steam\<close>.
  Here \<open>downloadIcon\<close> returns \<open>null\<close>, \<open>extractIco\<close> runs \<open>icotool\<close> on \<open>null\<close> and is
  rejected (as for C3), the \<open>catch\<close> of line 174 logs the error, and no shortcut is
  written.
\<close>

theorem createDesktopFile_no_shortcut_when_hash_fails:
  "fst (getIconHash failing_steamcmd_env ''400'' demo_world) = Resolved None
   \<and> fst (createDesktopFile failing_steamcmd_env demo_config ''Portal'' demo_world) = True
   \<and> shortcuts (snd (createDesktopFile failing_steamcmd_env demo_config ''Portal'' demo_world)) = []
   \<and> lookup (snd (createDesktopFile failing_steamcmd_env demo_config ''Portal'' demo_world))
        portal_shortcut = None
   \<and> last (trace (snd (createDesktopFile failing_steamcmd_env demo_config ''Portal'' demo_world))) =
        ConsoleErrorObj (ExecError ''icotool: null: cannot open file'')"
  by code_simp

end
